theory Spec2Isabelle
  imports Main "HOL-Library.Word"
begin

unbundle bit_operations_syntax

section \<open>The Windows service glue of the daemon (cmd/dockerd/service_windows.go)\<close>

text \<open>
  The file has three parts: the hook that forwards log entries to the Windows event log
  (\<open>etwHook.Fire\<close>), the panic file that receives the runtime's fault output
  (\<open>initPanicFile\<close>, \<open>removePanicFile\<close>), and the service handler with its two
  channels (\<open>initService\<close>, \<open>started\<close>, \<open>stopped\<close>, \<open>Execute\<close>).

  A Go \<open>error\<close> is modelled by its message, \<open>nil\<close> by \<open>None\<close>.
\<close>

type_synonym error = string

type_synonym Handle = nat

subsection \<open>Constants\<close>

text \<open>The event identifiers of the source (lines 35 to 45).\<close>

definition eventInfo :: "32 word" where "eventInfo = 1"
definition eventWarn :: "32 word" where "eventWarn = 1"
definition eventError :: "32 word" where "eventError = 1"
definition eventDebug :: "32 word" where "eventDebug = 2"
definition eventPanic :: "32 word" where "eventPanic = 3"
definition eventFatal :: "32 word" where "eventFatal = 4"

definition eventExtraOffset :: "32 word" where "eventExtraOffset = 10"

text \<open>
  The event types of \<open>golang.org/x/sys/windows\<close> (the values of the Windows API).
\<close>

definition EVENTLOG_ERROR_TYPE :: "16 word" where "EVENTLOG_ERROR_TYPE = 1"
definition EVENTLOG_WARNING_TYPE :: "16 word" where "EVENTLOG_WARNING_TYPE = 2"
definition EVENTLOG_INFORMATION_TYPE :: "16 word" where "EVENTLOG_INFORMATION_TYPE = 4"

text \<open>
  The levels of \<open>logrus\<close>: an unsigned integer type whose first six values are named.
  Its width plays no role here, so a level is a natural number.
\<close>

type_synonym Level = nat

definition PanicLevel :: Level where "PanicLevel = 0"
definition FatalLevel :: Level where "FatalLevel = 1"
definition ErrorLevel :: Level where "ErrorLevel = 2"
definition WarnLevel :: Level where "WarnLevel = 3"
definition InfoLevel :: Level where "InfoLevel = 4"
definition DebugLevel :: Level where "DebugLevel = 5"

subsection \<open>The event log hook\<close>

text \<open>
  A log entry. \<open>Data\<close> is a Go map from field names to values; the loop of \<open>Fire\<close>
  ranges over it in an order the runtime chooses, so the field is the list of the map's
  entries in that order, each value as \<open>fmt.Fprint\<close> prints it.
\<close>

record Entry =
  Level :: Level
  Message :: string
  Data :: "(string \<times> string) list"

text \<open>The hook holds the event log, \<open>None\<close> for the nil pointer of an interactive session.\<close>

record etwHook =
  log :: "Handle option"

text \<open>
  What \<open>Fire\<close> emits: a line on \<open>os.Stderr\<close>, or one call of \<open>windows.ReportEvent\<close>
  with the log's handle, the event type, the event identifier, the number of strings and
  the strings themselves (the category, the user and the raw data of the call are 0, 0
  and nil in the source).
\<close>

datatype emitted =
    WriteStderr string
  | ReportEvent Handle "16 word" "32 word" "16 word" "string list"

text \<open>The \<open>Levels\<close> method: the levels the hook asks to be fired for.\<close>

definition Levels :: "Level list" where
  "Levels = [PanicLevel, FatalLevel, ErrorLevel, WarnLevel, InfoLevel, DebugLevel]"

text \<open>The \<open>switch\<close> of \<open>Fire\<close> (lines 73 to 94); \<open>None\<close> is its default branch.\<close>

definition level_event :: "Level \<Rightarrow> (16 word \<times> 32 word) option" where
  "level_event l =
     (if l = PanicLevel then Some (EVENTLOG_ERROR_TYPE, eventPanic)
      else if l = FatalLevel then Some (EVENTLOG_ERROR_TYPE, eventFatal)
      else if l = ErrorLevel then Some (EVENTLOG_ERROR_TYPE, eventError)
      else if l = WarnLevel then Some (EVENTLOG_WARNING_TYPE, eventWarn)
      else if l = InfoLevel then Some (EVENTLOG_INFORMATION_TYPE, eventInfo)
      else if l = DebugLevel then Some (EVENTLOG_INFORMATION_TYPE, eventDebug)
      else None)"

text \<open>
  The loop over the fields (lines 100 to 105): each entry appends the key, \<open>=\<close>, the
  value and a space to the buffer \<open>fs\<close>.
\<close>

fun write_fields :: "(string \<times> string) list \<Rightarrow> string \<Rightarrow> string" where
  "write_fields [] fs = fs"
| "write_fields ((k, v) # kvs) fs = write_fields kvs (fs @ k @ ''='' @ v @ '' '')"

text \<open>
  \<open>syscall.UTF16PtrFromString\<close> refuses a string with a NUL byte (\<open>EINVAL\<close>) and
  otherwise encodes it; the encoded string is represented by the string itself.
\<close>

definition UTF16PtrFromString :: "string \<Rightarrow> error + string" where
  "UTF16PtrFromString s = (if CHR 0x00 \<in> set s then Inl ''invalid argument'' else Inr s)"

text \<open>
  \<open>Fire\<close> (lines 67 to 137). The result of the call of \<open>windows.ReportEvent\<close>, decided
  by the host, is the parameter \<open>reported\<close>. The function returns its error and what it
  emitted.
\<close>

definition Fire :: "error option \<Rightarrow> etwHook \<Rightarrow> Entry \<Rightarrow> error option \<times> emitted list" where
  "Fire reported h e =
     (case level_event (Level e) of
        None \<Rightarrow> (Some ''unknown level'', [])
      | Some (etype, eid0) \<Rightarrow>
          (let (exts, eid) =
                 (if length (Data e) > 0
                  then (let fs = write_fields (Data e) [] in
                          (take (length fs - 1) fs, eid0 + eventExtraOffset))
                  else ([], eid0))
           in case log h of
                None \<Rightarrow>
                  (None, [WriteStderr (Message e @ '' ['' @ exts @ '']'' @ [CHR 0x0A])])
              | Some handle \<Rightarrow>
                  (case UTF16PtrFromString (Message e) of
                     Inl err \<Rightarrow> (Some err, [])
                   | Inr s0 \<Rightarrow>
                       (if exts \<noteq> []
                        then (case UTF16PtrFromString exts of
                                Inl err \<Rightarrow> (Some err, [])
                              | Inr s1 \<Rightarrow>
                                  (reported, [ReportEvent handle etype eid (1 + 1) [s0, s1]]))
                        else (reported, [ReportEvent handle etype eid 1 [s0]])))))"

text \<open>
  Following the spec's words for the secondary string: the \<open>key=value\<close> pairs, joined by
  single spaces.
\<close>

definition key_value :: "string \<times> string \<Rightarrow> string" where
  "key_value kv = fst kv @ ''='' @ snd kv"

fun space_joined :: "string list \<Rightarrow> string" where
  "space_joined [] = []"
| "space_joined [s] = s"
| "space_joined (s # t # ss) = s @ '' '' @ space_joined (t # ss)"

subsection \<open>The operating system under the panic file\<close>

text \<open>
  The panic file code talks to the operating system only: files by path, open handles,
  and the process's standard error handle. The part of its state that the code can
  observe is a record. Every call is appended to \<open>calls\<close>, and fails, changing nothing
  else, when \<open>faults\<close> has an error for it. Which number a new handle gets is the host's
  choice, and it may be the number of a handle that was closed before: \<open>pick\<close> chooses it
  from the calls made so far and the table of open handles. A handle is in the table
  with the path it was opened at. The two package variables \<open>panicFile\<close> and \<open>oldStderr\<close>
  of the source live in the same record.
\<close>

datatype syscall =
    SysOpenFile string
  | SysStat Handle
  | SysClose Handle
  | SysRename string string
  | SysCreate string
  | SysGetStdHandle
  | SysSetStdHandle Handle
  | SysRemove string

text \<open>
  An \<open>*os.File\<close>: its handle and the name it was opened with. Once the file is closed
  its handle is \<open>syscall.InvalidHandle\<close>, the handle with all bits set (here of a host
  with 64 bits), which is also what \<open>Fd\<close> gives for a nil file.
\<close>

definition InvalidHandle :: Handle where
  "InvalidHandle = 2 ^ 64 - 1"

record File =
  Fd :: Handle
  Name :: string

record world =
  files :: "string \<Rightarrow> string option"
  handles :: "Handle \<Rightarrow> string option"
  pick :: "syscall list \<Rightarrow> (Handle \<Rightarrow> string option) \<Rightarrow> Handle"
  stderr :: Handle
  faults :: "syscall \<Rightarrow> error option"
  calls :: "syscall list"
  panicFile :: "File option"
  oldStderr :: Handle

definition called :: "syscall \<Rightarrow> world \<Rightarrow> world" where
  "called c w = w\<lparr>calls := calls w @ [c]\<rparr>"

text \<open>
  \<open>os.OpenFile(path, O_CREATE|O_WRONLY|O_APPEND, 0)\<close>: the file is created empty when it
  is missing, and kept as it is otherwise.
\<close>

definition os_OpenFile :: "string \<Rightarrow> world \<Rightarrow> (error + File) \<times> world" where
  "os_OpenFile path w =
     (let w1 = called (SysOpenFile path) w in
      case faults w (SysOpenFile path) of
        Some err \<Rightarrow> (Inl err, w1)
      | None \<Rightarrow>
          (Inr \<lparr>Fd = pick w (calls w) (handles w), Name = path\<rparr>,
           w1\<lparr>files := (case files w path of
                           None \<Rightarrow> (files w)(path \<mapsto> [])
                         | Some c \<Rightarrow> files w),
              handles := (handles w)(pick w (calls w) (handles w) \<mapsto> path)\<rparr>))"

text \<open>\<open>os.Create(path)\<close>: the file is created, or truncated when it exists.\<close>

definition os_Create :: "string \<Rightarrow> world \<Rightarrow> (error + File) \<times> world" where
  "os_Create path w =
     (let w1 = called (SysCreate path) w in
      case faults w (SysCreate path) of
        Some err \<Rightarrow> (Inl err, w1)
      | None \<Rightarrow>
          (Inr \<lparr>Fd = pick w (calls w) (handles w), Name = path\<rparr>,
           w1\<lparr>files := (files w)(path \<mapsto> []),
              handles := (handles w)(pick w (calls w) (handles w) \<mapsto> path)\<rparr>))"

text \<open>
  \<open>f.Stat()\<close>, reduced to the size it reports. A nil \<open>*os.File\<close> gives an error without
  any call.
\<close>

definition File_Stat :: "File option \<Rightarrow> world \<Rightarrow> (error + nat) \<times> world" where
  "File_Stat f w =
     (case f of
        None \<Rightarrow> (Inl ''invalid argument'', w)
      | Some fl \<Rightarrow>
          (let w1 = called (SysStat (Fd fl)) w in
           case faults w (SysStat (Fd fl)) of
             Some err \<Rightarrow> (Inl err, w1)
           | None \<Rightarrow>
               (case handles w (Fd fl) of
                  None \<Rightarrow> (Inl ''file already closed'', w1)
                | Some p \<Rightarrow>
                    (case files w p of
                       None \<Rightarrow> (Inl ''file not found'', w1)
                     | Some c \<Rightarrow> (Inr (length c), w1)))))"

text \<open>
  \<open>panicFile.Close()\<close>, the only \<open>Close\<close> of the source: the handle is closed, and the
  file that \<open>panicFile\<close> points to has the invalid handle from then on, also when the
  call fails. The source drops the error, and it never closes a file twice. A nil file
  gives an error without any call.
\<close>

definition panicFile_Close :: "world \<Rightarrow> world" where
  "panicFile_Close w =
     (case panicFile w of
        None \<Rightarrow> w
      | Some fl \<Rightarrow>
          (let w1 = (called (SysClose (Fd fl)) w)
                      \<lparr>panicFile := Some (fl\<lparr>Fd := InvalidHandle\<rparr>)\<rparr>
           in case faults w (SysClose (Fd fl)) of
                Some err \<Rightarrow> w1
              | None \<Rightarrow> w1\<lparr>handles := (handles w)(Fd fl := None)\<rparr>))"

text \<open>
  \<open>os.Rename(old, new)\<close>, which replaces an existing \<open>new\<close>; the source drops its error.
\<close>

definition os_Rename :: "string \<Rightarrow> string \<Rightarrow> world \<Rightarrow> world" where
  "os_Rename old new w =
     (let w1 = called (SysRename old new) w in
      case faults w (SysRename old new) of
        Some err \<Rightarrow> w1
      | None \<Rightarrow>
          (case files w old of
             None \<Rightarrow> w1
           | Some c \<Rightarrow> w1\<lparr>files := (files w)(old := None, new \<mapsto> c)\<rparr>))"

text \<open>\<open>os.Remove(path)\<close>; the source drops its error.\<close>

definition os_Remove :: "string \<Rightarrow> world \<Rightarrow> world" where
  "os_Remove path w =
     (let w1 = called (SysRemove path) w in
      case faults w (SysRemove path) of
        Some err \<Rightarrow> w1
      | None \<Rightarrow> w1\<lparr>files := (files w)(path := None)\<rparr>)"

text \<open>\<open>syscall.GetStdHandle(STD_ERROR_HANDLE)\<close>.\<close>

definition GetStdHandle :: "world \<Rightarrow> (error + Handle) \<times> world" where
  "GetStdHandle w =
     (let w1 = called SysGetStdHandle w in
      case faults w SysGetStdHandle of
        Some err \<Rightarrow> (Inl err, w1)
      | None \<Rightarrow> (Inr (stderr w), w1))"

text \<open>
  \<open>setStdHandle.Call(STD_ERROR_HANDLE, h)\<close>. The error of \<open>Call\<close> is never nil, so the
  test \<open>r == 0 && err != nil\<close> of the source is the test that the call failed.
\<close>

definition SetStdHandle :: "Handle \<Rightarrow> world \<Rightarrow> error option \<times> world" where
  "SetStdHandle h w =
     (let w1 = called (SysSetStdHandle h) w in
      case faults w (SysSetStdHandle h) of
        Some err \<Rightarrow> (Some err, w1)
      | None \<Rightarrow> (None, w1\<lparr>stderr := h\<rparr>))"

subsection \<open>The panic file\<close>

text \<open>
  The block of \<open>initPanicFile\<close> for a file that already has contents (lines 332 to 339):
  close it, move it out of the way and replace it. A failure of \<open>os.Create\<close> leaves
  \<open>panicFile\<close> nil.
\<close>

definition replace_panicFile :: "string \<Rightarrow> world \<Rightarrow> error option \<times> world" where
  "replace_panicFile path w =
     (let w1 = panicFile_Close w;
          w2 = os_Rename path (path @ ''.old'') w1
      in case os_Create path w2 of
           (Inl err, w3) \<Rightarrow> (Some err, w3\<lparr>panicFile := None\<rparr>)
         | (Inr f, w3) \<Rightarrow> (None, w3\<lparr>panicFile := Some f\<rparr>))"

text \<open>
  The last part of \<open>initPanicFile\<close> (lines 341 to 357): remember the standard error
  handle in \<open>oldStderr\<close>, then point the standard error handle to the panic file.
\<close>

definition redirect_stderr :: "world \<Rightarrow> error option \<times> world" where
  "redirect_stderr w =
     (case GetStdHandle w of
        (Inl err, w1) \<Rightarrow> (Some err, w1)
      | (Inr h, w1) \<Rightarrow>
          (let w2 = w1\<lparr>oldStderr := h\<rparr>
           in SetStdHandle (case panicFile w2 of None \<Rightarrow> InvalidHandle | Some pf \<Rightarrow> Fd pf)
                w2))"

text \<open>\<open>initPanicFile\<close> (lines 318 to 358).\<close>

definition initPanicFile :: "string \<Rightarrow> world \<Rightarrow> error option \<times> world" where
  "initPanicFile path w =
     (case os_OpenFile path w of
        (Inl err, w1) \<Rightarrow> (Some err, w1\<lparr>panicFile := None\<rparr>)
      | (Inr f, w1) \<Rightarrow>
          (let w2 = w1\<lparr>panicFile := Some f\<rparr> in
           case File_Stat (panicFile w2) w2 of
             (Inl err, w3) \<Rightarrow> (Some err, w3)
           | (Inr sz, w3) \<Rightarrow>
               (case (if sz > 0 then replace_panicFile path w3 else (None, w3)) of
                  (Some err, w4) \<Rightarrow> (Some err, w4)
                | (None, w4) \<Rightarrow> redirect_stderr w4)))"

text \<open>\<open>removePanicFile\<close> (lines 360 to 369).\<close>

definition removePanicFile :: "world \<Rightarrow> world" where
  "removePanicFile w =
     (case File_Stat (panicFile w) w of
        (Inl err, w1) \<Rightarrow> w1
      | (Inr sz, w1) \<Rightarrow>
          (if sz = 0
           then (let w2 = snd (SetStdHandle (oldStderr w1) w1);
                     w3 = panicFile_Close w2
                 in case panicFile w3 of
                      None \<Rightarrow> w3
                    | Some pf \<Rightarrow> os_Remove (Name pf) w3)
           else w1))"

subsection \<open>The service handler\<close>

text \<open>
  The states, commands and accepted-command bits of \<open>golang.org/x/sys/windows/svc\<close> and
  the two Windows constants the source names (the values of the Windows API).
\<close>

definition Stopped :: "32 word" where "Stopped = 1"
definition StartPending :: "32 word" where "StartPending = 2"
definition StopPending :: "32 word" where "StopPending = 3"
definition Running :: "32 word" where "Running = 4"

definition Stop :: "32 word" where "Stop = 1"
definition Interrogate :: "32 word" where "Interrogate = 4"
definition Shutdown :: "32 word" where "Shutdown = 5"
definition SERVICE_CONTROL_PARAMCHANGE :: "32 word" where "SERVICE_CONTROL_PARAMCHANGE = 6"

definition AcceptStop :: "32 word" where "AcceptStop = 1"
definition AcceptShutdown :: "32 word" where "AcceptShutdown = 4"
definition SERVICE_ACCEPT_PARAMCHANGE :: "32 word" where "SERVICE_ACCEPT_PARAMCHANGE = 8"

text \<open>
  \<open>svc.Status\<close> and \<open>svc.ChangeRequest\<close>, with the fields the source sets or reads.
\<close>

record Status =
  State :: "32 word"
  Accepts :: "32 word"

record ChangeRequest =
  Cmd :: "32 word"
  CurrentStatus :: Status

text \<open>
  What the handler's methods do to the outside, in order: a status sent on \<open>s\<close>, a value
  sent on \<open>fromsvc\<close> or \<open>tosvc\<close>, a receive on \<open>fromsvc\<close>, a debug message, and the two
  calls into the daemon, \<open>daemonCli.reloadConfig()\<close> and \<open>daemonCli.stop()\<close>.
\<close>

datatype action =
    SendStatus Status
  | SendFromsvc "error option"
  | SendTosvc bool
  | RecvFromsvc
  | Debugf string
  | ReloadConfig
  | DaemonStop

text \<open>
  What \<open>Execute\<close> receives, in the order in which the values are there to be received:
  a boolean on \<open>tosvc\<close>, or a change request on \<open>r\<close>.
\<close>

datatype event =
    FromDaemon bool
  | Control ChangeRequest

text \<open>
  \<open>started\<close> (lines 262 to 271). \<open>Join\<close> stands for \<open>filepath.Join\<close> and \<open>Root\<close> for
  \<open>daemonCli.Config.Root\<close>. The function returns its error, what it did on the channels,
  and the new state.
\<close>

definition started ::
  "(string \<Rightarrow> string \<Rightarrow> string) \<Rightarrow> string \<Rightarrow> world \<Rightarrow> error option \<times> action list \<times> world"
where
  "started Join Root w =
     (case initPanicFile (Join Root ''panic.log'') w of
        (Some err, w1) \<Rightarrow> (Some err, [], w1)
      | (None, w1) \<Rightarrow> (None, [SendTosvc False], w1))"

text \<open>\<open>stopped\<close> (lines 273 to 277); \<open>%v\<close> prints a nil error as \<open><nil>\<close>.\<close>

definition stopped :: "error option \<Rightarrow> action list" where
  "stopped err =
     [Debugf (''Stopping service: '' @ (case err of None \<Rightarrow> ''<nil>'' | Some m \<Rightarrow> m)),
      SendTosvc (err \<noteq> None),
      RecvFromsvc]"

text \<open>The values that a run of the daemon's side puts on \<open>tosvc\<close>, as events for \<open>Execute\<close>.\<close>

fun signals :: "action list \<Rightarrow> event list" where
  "signals [] = []"
| "signals (SendTosvc b # as) = FromDaemon b # signals as"
| "signals (a # as) = signals as"

text \<open>
  The receive \<open>failed := <-h.tosvc\<close> of line 285 takes the first boolean; the change
  requests that are there before it stay on \<open>r\<close>, in their order. \<open>None\<close>: no boolean ever
  comes, and the receive blocks for ever.
\<close>

fun first_signal :: "event list \<Rightarrow> (bool \<times> event list) option" where
  "first_signal [] = None"
| "first_signal (FromDaemon b # evs) = Some (b, evs)"
| "first_signal (Control c # evs) =
     (case first_signal evs of
        None \<Rightarrow> None
      | Some (b, rest) \<Rightarrow> Some (b, Control c # rest))"

text \<open>The \<open>switch\<close> on a change request (lines 299 to 307).\<close>

definition serve :: "ChangeRequest \<Rightarrow> action list" where
  "serve c =
     (if Cmd c = SERVICE_CONTROL_PARAMCHANGE then [ReloadConfig]
      else if Cmd c = Interrogate then [SendStatus (CurrentStatus c)]
      else if Cmd c = Stop \<or> Cmd c = Shutdown
        then [SendStatus \<lparr>State = StopPending, Accepts = 0\<rparr>, DaemonStop]
      else [])"

text \<open>
  The loop (lines 293 to 309): each round takes the next event. A boolean ends the loop
  and is its result; with no event left the \<open>select\<close> blocks for ever (\<open>None\<close>).
\<close>

fun Loop :: "event list \<Rightarrow> action list \<times> bool option" where
  "Loop [] = ([], None)"
| "Loop (FromDaemon failed # evs) = ([], Some failed)"
| "Loop (Control c # evs) = (case Loop evs of (as, res) \<Rightarrow> (serve c @ as, res))"

datatype outcome =
    Returned bool "32 word"
  | Blocked

text \<open>
  \<open>Execute\<close> (lines 279 to 316): what it does, how it ends, and the state it leaves.
  The sends on \<open>s\<close> and on \<open>fromsvc\<close> are taken by the service framework and by
  \<open>initService\<close>. The state is used at the end of the loop only, where the panic file
  is released, so \<open>w\<close> is the state at that moment.
\<close>

definition Execute :: "event list \<Rightarrow> world \<Rightarrow> action list \<times> outcome \<times> world" where
  "Execute evs w =
     (let begun = [SendStatus \<lparr>State = StartPending, Accepts = 0\<rparr>, SendFromsvc None] in
      case first_signal evs of
        None \<Rightarrow> (begun, Blocked, w)
      | Some (failed, evs1) \<Rightarrow>
          (if failed
           then (begun @ [Debugf ''Aborting service start due to failure during initializtion''],
                 Returned True 1, w)
           else (let running =
                       [SendStatus \<lparr>State = Running,
                          Accepts = AcceptStop OR AcceptShutdown OR SERVICE_ACCEPT_PARAMCHANGE\<rparr>,
                        Debugf ''Service running'']
                 in case Loop evs1 of
                      (served, None) \<Rightarrow> (begun @ running @ served, Blocked, w)
                    | (served, Some failed') \<Rightarrow>
                        (begun @ running @ served,
                         if failed' then Returned True 1 else Returned False 0,
                         removePanicFile w))))"

text \<open>The statuses among the actions, in order.\<close>

fun statuses :: "action list \<Rightarrow> Status list" where
  "statuses [] = []"
| "statuses (SendStatus st # as) = st # statuses as"
| "statuses (a # as) = statuses as"

subsection \<open>Starting up: \<open>initService\<close>\<close>

text \<open>The four command line flags of the source.\<close>

record flags =
  flServiceName :: string
  flRegisterService :: bool
  flUnregisterService :: bool
  flRunService :: bool

text \<open>
  What the host answers to the calls of \<open>initService\<close> and of the two functions it
  calls: the result of \<open>exec.LookPath(os.Args[0])\<close> and of \<open>filepath.Abs\<close>, the arguments
  \<open>os.Args[1:]\<close>, the results of the service manager and event log calls, the answer of
  \<open>svc.IsAnInteractiveSession\<close>, and \<open>Run\<close>: the error with which \<open>debug.Run\<close> or
  \<open>svc.Run\<close> returns before it has called \<open>Execute\<close>, or \<open>None\<close> when it calls
  \<open>Execute\<close>.
\<close>

record host =
  LookPath :: "error + string"
  Abs :: "string \<Rightarrow> error + string"
  Args :: "string list"
  Connect :: "error option"
  CreateService :: "string \<Rightarrow> string \<Rightarrow> string list \<Rightarrow> error option"
  Install :: "string \<Rightarrow> string \<Rightarrow> error option"
  OpenService :: "string \<Rightarrow> error option"
  Delete :: "error option"
  IsAnInteractiveSession :: "error + bool"
  Open :: "string \<Rightarrow> error + Handle"
  Run :: "error option"

definition getServicePath :: "host \<Rightarrow> error + string" where
  "getServicePath hst =
     (case LookPath hst of
        Inl err \<Rightarrow> Inl err
      | Inr p \<Rightarrow> Abs hst p)"

definition registerService :: "flags \<Rightarrow> host \<Rightarrow> error option" where
  "registerService fl hst =
     (case getServicePath hst of
        Inl err \<Rightarrow> Some err
      | Inr p \<Rightarrow>
          (case Connect hst of
             Some err \<Rightarrow> Some err
           | None \<Rightarrow>
               (let args = ''--run-service'' #
                      filter (\<lambda>a. a \<noteq> ''--register-service'' \<and> a \<noteq> ''--unregister-service'')
                        (Args hst)
                in case CreateService hst (flServiceName fl) p args of
                     Some err \<Rightarrow> Some err
                   | None \<Rightarrow>
                       (case Install hst (flServiceName fl) p of
                          Some err \<Rightarrow> Some err
                        | None \<Rightarrow> None))))"

definition unregisterService :: "flags \<Rightarrow> host \<Rightarrow> error option" where
  "unregisterService fl hst =
     (case Connect hst of
        Some err \<Rightarrow> Some err
      | None \<Rightarrow>
          (case OpenService hst (flServiceName fl) of
             Some err \<Rightarrow> Some err
           | None \<Rightarrow>
               (case Delete hst of
                  Some err \<Rightarrow> Some err
                | None \<Rightarrow> None)))"

text \<open>
  \<open>initService\<close> (lines 206 to 260), reduced to the pair it returns. On the last path it
  also adds the hook, sets \<open>service\<close> and starts \<open>Run\<close> on a goroutine; the value it then
  receives on \<open>fromsvc\<close> is the error of \<open>Run\<close>, or the nil that \<open>Execute\<close> sends first.
\<close>

definition initService :: "flags \<Rightarrow> host \<Rightarrow> bool \<times> error option" where
  "initService fl hst =
     (if flUnregisterService fl
      then (if flRegisterService fl
            then (True,
                  Some ''--register-service and --unregister-service cannot be used together'')
            else (True, unregisterService fl hst))
      else if flRegisterService fl then (True, registerService fl hst)
      else if \<not> flRunService fl then (False, None)
      else (case IsAnInteractiveSession hst of
              Inl err \<Rightarrow> (False, Some err)
            | Inr interactive \<Rightarrow>
                (case (if \<not> interactive
                       then (case Open hst (flServiceName fl) of
                               Inl err \<Rightarrow> Some err
                             | Inr lg \<Rightarrow> None)
                       else None) of
                   Some err \<Rightarrow> (False, Some err)
                 | None \<Rightarrow>
                     (case Run hst of
                        Some err \<Rightarrow> (False, Some err)
                      | None \<Rightarrow> (False, None)))))"

subsection \<open>Example states\<close>

text \<open>
  Concrete states and hosts on which the definitions are run: a state without files and
  without faults, one with a panic file left by an earlier run, one whose \<open>OpenFile\<close>
  fails, and one in which the panic file is installed with a given content. Their host
  gives a new handle the number 3 when that is not open, and 4 otherwise, so that the
  number of a closed handle is used again; the host of \<open>counting_world\<close> never uses a
  number again.
\<close>

definition quiet_world :: world where
  "quiet_world =
     \<lparr>files = Map.empty, handles = Map.empty,
      pick = (\<lambda>cs tbl. if tbl 3 = None then 3 else 4), stderr = 2,
      faults = (\<lambda>c. None), calls = [], panicFile = None, oldStderr = 0\<rparr>"

definition stale_world :: world where
  "stale_world = quiet_world\<lparr>files := [''root/panic.log'' \<mapsto> ''boom'']\<rparr>"

definition counting_world :: world where
  "counting_world = stale_world\<lparr>pick := (\<lambda>cs tbl. 3 + length cs)\<rparr>"

definition broken_world :: world where
  "broken_world =
     quiet_world\<lparr>faults := (\<lambda>c. if c = SysOpenFile ''root/panic.log''
                                  then Some ''access denied'' else None)\<rparr>"

definition armed_world :: "string \<Rightarrow> world" where
  "armed_world content =
     \<lparr>files = [''root/panic.log'' \<mapsto> content], handles = [3 \<mapsto> ''root/panic.log''],
      pick = (\<lambda>cs tbl. if tbl 3 = None then 3 else 4), stderr = 3,
      faults = (\<lambda>c. None),
      calls = [], panicFile = Some \<lparr>Fd = 3, Name = ''root/panic.log''\<rparr>, oldStderr = 2\<rparr>"

definition slash_Join :: "string \<Rightarrow> string \<Rightarrow> string" where
  "slash_Join dir file = dir @ ''/'' @ file"

definition quiet_host :: host where
  "quiet_host =
     \<lparr>LookPath = Inr ''dockerd.exe'', Abs = (\<lambda>p. Inr (''C:/'' @ p)), Args = [],
      Connect = None, CreateService = (\<lambda>n p args. None), Install = (\<lambda>n p. None),
      OpenService = (\<lambda>n. None), Delete = None, IsAnInteractiveSession = Inr False,
      Open = (\<lambda>n. Inr 7), Run = None\<rparr>"

definition no_flags :: flags where
  "no_flags =
     \<lparr>flServiceName = ''docker'', flRegisterService = False, flUnregisterService = False,
      flRunService = False\<rparr>"

definition stop_request :: ChangeRequest where
  "stop_request =
     \<lparr>Cmd = Stop,
      CurrentStatus = \<lparr>State = Running,
        Accepts = AcceptStop OR AcceptShutdown OR SERVICE_ACCEPT_PARAMCHANGE\<rparr>\<rparr>"

section \<open>Properties of the event log hook\<close>

lemmas level_defs =
  PanicLevel_def FatalLevel_def ErrorLevel_def WarnLevel_def InfoLevel_def DebugLevel_def

lemmas event_defs =
  eventInfo_def eventWarn_def eventError_def eventDebug_def eventPanic_def eventFatal_def
  eventExtraOffset_def
  EVENTLOG_ERROR_TYPE_def EVENTLOG_WARNING_TYPE_def EVENTLOG_INFORMATION_TYPE_def

lemma write_fields_append:
  "write_fields kvs fs = fs @ concat (map (\<lambda>kv. key_value kv @ '' '') kvs)"
  by (induction kvs arbitrary: fs) (auto simp: key_value_def)

lemma space_joined_butlast:
  "ss \<noteq> [] \<Longrightarrow> butlast (concat (map (\<lambda>s. s @ '' '') ss)) = space_joined ss"
proof (induction ss rule: space_joined.induct)
  case 1
  then show ?case by simp
next
  case (2 s)
  then show ?case by simp
next
  case (3 s t ss)
  then show ?case by (simp add: butlast_append)
qed

lemma flattened_fields:
  assumes "kvs \<noteq> []"
  shows "take (length (write_fields kvs []) - 1) (write_fields kvs [])
           = space_joined (map key_value kvs)"
proof -
  have eq: "write_fields kvs [] = concat (map (\<lambda>s. s @ '' '') (map key_value kvs))"
    by (simp add: write_fields_append comp_def)
  have ne: "map key_value kvs \<noteq> []"
    using assms by simp
  have "take (length (write_fields kvs []) - 1) (write_fields kvs [])
          = butlast (write_fields kvs [])"
    by (simp add: butlast_conv_take)
  also have "\<dots> = space_joined (map key_value kvs)"
    unfolding eq by (rule space_joined_butlast [OF ne])
  finally show ?thesis .
qed

lemma space_joined_nonempty:
  "kvs \<noteq> [] \<Longrightarrow> space_joined (map key_value kvs) \<noteq> []"
proof (cases kvs)
  case Nil
  assume "kvs \<noteq> []"
  with Nil show ?thesis by simp
next
  case (Cons kv rest)
  then show ?thesis
    by (cases rest) (simp_all add: key_value_def)
qed

lemma level_event_Some:
  "level_event l = Some p \<Longrightarrow> l \<in> set Levels"
  by (auto simp: level_event_def Levels_def split: if_splits)

lemma Fire_known_level:
  assumes "level_event (Level e) = Some (etype, eid0)"
  shows "Fire reported h e =
     (let exts = (if Data e = [] then [] else space_joined (map key_value (Data e)));
          eid = (if Data e = [] then eid0 else eid0 + eventExtraOffset)
      in case log h of
           None \<Rightarrow> (None, [WriteStderr (Message e @ '' ['' @ exts @ '']'' @ [CHR 0x0A])])
         | Some handle \<Rightarrow>
             (if CHR 0x00 \<in> set (Message e) then (Some ''invalid argument'', [])
              else if Data e = [] then (reported, [ReportEvent handle etype eid 1 [Message e]])
              else if CHR 0x00 \<in> set exts then (Some ''invalid argument'', [])
              else (reported, [ReportEvent handle etype eid 2 [Message e, exts]])))"
proof (cases "Data e = []")
  case True
  then show ?thesis
    using assms by (simp add: Fire_def UTF16PtrFromString_def split: option.splits)
next
  case False
  then show ?thesis
    using assms flattened_fields [OF False] space_joined_nonempty [OF False]
    by (simp add: Fire_def UTF16PtrFromString_def Let_def split: option.splits)
qed

text \<open>
  C4, as the code has it. The six levels get six different pairs of event type and event
  identifier, but not six different identifiers: Panic has 3, Fatal 4, Error, Warn and
  Info all have 1, and Debug has 2. Warn has the warning type, Info and Debug the
  informational type, and Error, Fatal and Panic the error type.
\<close>

theorem level_event_table:
  "distinct (map level_event Levels)
   \<and> map (map_option snd \<circ> level_event) Levels
       = [Some 3, Some 4, Some 1, Some 1, Some 1, Some 2]
   \<and> map_option fst (level_event WarnLevel) = Some EVENTLOG_WARNING_TYPE
   \<and> map_option fst (level_event InfoLevel) = Some EVENTLOG_INFORMATION_TYPE
   \<and> map_option fst (level_event DebugLevel) = Some EVENTLOG_INFORMATION_TYPE
   \<and> map_option fst (level_event ErrorLevel) = Some EVENTLOG_ERROR_TYPE
   \<and> map_option fst (level_event FatalLevel) = Some EVENTLOG_ERROR_TYPE
   \<and> map_option fst (level_event PanicLevel) = Some EVENTLOG_ERROR_TYPE"
  by (simp add: level_event_def Levels_def level_defs event_defs)

text \<open>
  C4 as stated fails: Info and Warn are different levels with the same event identifier.
\<close>

theorem level_event_identifier_shared:
  "InfoLevel \<noteq> WarnLevel
   \<and> map_option snd (level_event InfoLevel) = map_option snd (level_event WarnLevel)"
  by (simp add: level_event_def level_defs event_defs)

text \<open>
  C10. For an entry whose level is none of the six levels of \<open>Levels\<close>, \<open>Fire\<close>
  returns the error "unknown level" and emits nothing: no event and no line on the
  fallback stream.
\<close>

theorem Fire_unknown_level:
  "Level e \<notin> set Levels \<Longrightarrow> Fire reported h e = (Some ''unknown level'', [])"
proof -
  assume unknown: "Level e \<notin> set Levels"
  have "level_event (Level e) = None"
  proof (cases "level_event (Level e)")
    case None
    then show ?thesis .
  next
    case (Some p)
    from level_event_Some [OF Some] unknown show ?thesis by contradiction
  qed
  then show ?thesis by (simp add: Fire_def)
qed

theorem Fire_unknown_level_witness:
  "6 \<notin> set Levels
   \<and> Fire None \<lparr>log = Some 7\<rparr> \<lparr>Level = 6, Message = ''m'', Data = [(''a'', ''1'')]\<rparr>
       = (Some ''unknown level'', [])"
proof -
  have unknown: "Level \<lparr>Level = 6, Message = ''m'', Data = [(''a'', ''1'')]\<rparr> \<notin> set Levels"
    by (simp add: Levels_def level_defs)
  from Fire_unknown_level [OF unknown, of None "\<lparr>log = Some 7\<rparr>"] unknown
  show ?thesis by simp
qed

text \<open>
  C6, as the code has it. Let the entry have one of the six levels, with event type
  \<open>etype\<close> and base identifier \<open>eid0\<close>. With at least one field, the secondary string is
  the \<open>key=value\<close> pairs joined by single spaces (no trailing space) and the identifier is
  \<open>eid0 + 10\<close>; with no field the identifier is \<open>eid0\<close>. An event is submitted only when the
  hook has an event log and the strings have no NUL byte: then it has two strings (the
  message and the secondary string) when there are fields and one string (the message)
  when there are none. A hook without an event log writes the line
  \<open>message [secondary]\<close> to the fallback stream instead and submits no event.
\<close>

theorem Fire_fields:
  assumes "level_event (Level e) = Some (etype, eid0)"
  shows "(Data e \<noteq> [] \<and> log h = Some handle \<and> CHR 0x00 \<notin> set (Message e)
            \<and> CHR 0x00 \<notin> set (space_joined (map key_value (Data e)))
          \<longrightarrow> Fire reported h e =
                (reported, [ReportEvent handle etype (eid0 + eventExtraOffset) 2
                   [Message e, space_joined (map key_value (Data e))]]))
       \<and> (Data e = [] \<and> log h = Some handle \<and> CHR 0x00 \<notin> set (Message e)
          \<longrightarrow> Fire reported h e = (reported, [ReportEvent handle etype eid0 1 [Message e]]))
       \<and> (Data e \<noteq> [] \<and> log h = None
          \<longrightarrow> Fire reported h e =
                (None, [WriteStderr (Message e @ '' [''
                   @ space_joined (map key_value (Data e)) @ '']'' @ [CHR 0x0A])]))
       \<and> (Data e = [] \<and> log h = None
          \<longrightarrow> Fire reported h e = (None, [WriteStderr (Message e @ '' []'' @ [CHR 0x0A])]))"
  by (simp add: Fire_known_level [OF assms] Let_def)

theorem Fire_fields_witness:
  "Fire None \<lparr>log = Some 7\<rparr>
       \<lparr>Level = WarnLevel, Message = ''m'', Data = [(''a'', ''1''), (''b'', ''2'')]\<rparr>
     = (None, [ReportEvent 7 EVENTLOG_WARNING_TYPE 11 2 [''m'', ''a=1 b=2'']])
   \<and> Fire None \<lparr>log = Some 7\<rparr> \<lparr>Level = WarnLevel, Message = ''m'', Data = []\<rparr>
     = (None, [ReportEvent 7 EVENTLOG_WARNING_TYPE 1 1 [''m'']])"
proof -
  let ?e2 = "\<lparr>Level = WarnLevel, Message = ''m'', Data = [(''a'', ''1''), (''b'', ''2'')]\<rparr>"
  let ?e0 = "\<lparr>Level = WarnLevel, Message = ''m'', Data = []\<rparr>"
  have l2: "level_event (Level ?e2) = Some (EVENTLOG_WARNING_TYPE, 1)"
    by (simp add: level_event_def level_defs event_defs)
  have l0: "level_event (Level ?e0) = Some (EVENTLOG_WARNING_TYPE, 1)"
    by (simp add: level_event_def level_defs event_defs)
  from Fire_fields [OF l2, of "\<lparr>log = Some 7\<rparr>" 7 None]
       Fire_fields [OF l0, of "\<lparr>log = Some 7\<rparr>" 7 None]
  show ?thesis by (simp add: key_value_def eventExtraOffset_def)
qed

text \<open>
  C6 as stated fails for a hook without an event log: the entry has a field, and \<open>Fire\<close>
  submits no event; it writes one line to the fallback stream.
\<close>

theorem Fire_fields_no_event_log:
  "Fire None \<lparr>log = None\<rparr> \<lparr>Level = InfoLevel, Message = ''m'', Data = [(''a'', ''1'')]\<rparr>
     = (None, [WriteStderr (''m [a=1]'' @ [CHR 0x0A])])"
  by (simp add: Fire_def level_event_def level_defs event_defs)

section \<open>Properties of the panic file\<close>

lemmas os_defs = os_OpenFile_def os_Create_def File_Stat_def panicFile_Close_def os_Rename_def
  os_Remove_def GetStdHandle_def SetStdHandle_def called_def

lemmas panic_defs = initPanicFile_def replace_panicFile_def redirect_stderr_def
  removePanicFile_def

lemma redirect_stderr_ok:
  assumes "redirect_stderr w = (None, w')"
  shows "oldStderr w' = stderr w
       \<and> stderr w' = (case panicFile w of None \<Rightarrow> InvalidHandle | Some pf \<Rightarrow> Fd pf)
       \<and> calls w' = calls w @ [SysGetStdHandle,
            SysSetStdHandle (case panicFile w of None \<Rightarrow> InvalidHandle | Some pf \<Rightarrow> Fd pf)]
       \<and> files w' = files w \<and> handles w' = handles w \<and> panicFile w' = panicFile w"
  using assms
  by (auto simp: redirect_stderr_def GetStdHandle_def SetStdHandle_def called_def Let_def
      split: option.splits)

lemma redirect_stderr_keeps:
  "files (snd (redirect_stderr w)) = files w"
  "handles (snd (redirect_stderr w)) = handles w"
  "panicFile (snd (redirect_stderr w)) = panicFile w"
  "\<exists>rest. calls (snd (redirect_stderr w)) = calls w @ rest"
  by (auto simp: redirect_stderr_def GetStdHandle_def SetStdHandle_def called_def Let_def
      split: option.splits)

lemma replace_panicFile_calls:
  "calls (snd (replace_panicFile path w))
     = calls w @ (case panicFile w of None \<Rightarrow> [] | Some f \<Rightarrow> [SysClose (Fd f)])
         @ [SysRename path (path @ ''.old''), SysCreate path]"
  by (simp add: replace_panicFile_def os_defs Let_def split: option.splits)

lemma replace_panicFile_keeps:
  "stderr (snd (replace_panicFile path w)) = stderr w"
  "faults (snd (replace_panicFile path w)) = faults w"
  "oldStderr (snd (replace_panicFile path w)) = oldStderr w"
  by (simp_all add: replace_panicFile_def os_defs Let_def split: option.splits)

lemma replace_panicFile_ok:
  assumes "replace_panicFile path w = (None, w')"
  shows "\<exists>h. panicFile w' = Some \<lparr>Fd = h, Name = path\<rparr> \<and> handles w' h = Some path"
    and "files w' path = Some []"
  using assms
  by (auto simp add: replace_panicFile_def os_defs Let_def split: option.splits)

lemma replace_panicFile_files:
  "faults w (SysCreate path) = None \<Longrightarrow> files (snd (replace_panicFile path w)) path = Some []"
  "faults w (SysRename path (path @ ''.old'')) = None
     \<Longrightarrow> files w path = Some c
     \<Longrightarrow> files (snd (replace_panicFile path w)) (path @ ''.old'') = Some c"
  "panicFile w = Some f \<Longrightarrow> faults w (SysClose (Fd f)) = None
     \<Longrightarrow> handles (snd (replace_panicFile path w)) (Fd f) = None
         \<or> panicFile (snd (replace_panicFile path w)) = Some \<lparr>Fd = Fd f, Name = path\<rparr>"
  by (simp_all add: replace_panicFile_def os_defs Let_def split: option.splits)

lemma os_OpenFile_keeps:
  "stderr (snd (os_OpenFile path w)) = stderr w"
  "calls (snd (os_OpenFile path w)) = calls w @ [SysOpenFile path]"
  "faults (snd (os_OpenFile path w)) = faults w"
  by (simp_all add: os_defs Let_def split: option.splits)

lemma os_OpenFile_ok:
  assumes "os_OpenFile path w = (Inr f, w1)"
  shows "f = \<lparr>Fd = pick w (calls w) (handles w), Name = path\<rparr>"
    and "handles w1 (Fd f) = Some path"
    and "\<exists>c. files w1 path = Some c"
  using assms
  by (auto simp add: os_defs Let_def split: option.splits)

lemma File_Stat_snd:
  "snd (File_Stat (Some f) w) = called (SysStat (Fd f)) w"
  by (simp add: File_Stat_def Let_def split: option.splits)

lemma File_Stat_ok:
  assumes "File_Stat (Some f) w = (Inr sz, w')"
    and "handles w (Fd f) = Some p" and "files w p = Some c"
  shows "sz = length c"
  using assms
  by (auto simp add: File_Stat_def Let_def split: option.splits)

lemma initPanicFile_before_redirect:
  assumes ok: "initPanicFile path w = (None, w')"
  shows "\<exists>w4 h pre. redirect_stderr w4 = (None, w') \<and> stderr w4 = stderr w
           \<and> panicFile w4 = Some \<lparr>Fd = h, Name = path\<rparr> \<and> handles w4 h = Some path
           \<and> files w4 path = Some [] \<and> calls w4 = calls w @ pre"
proof -
  obtain r1 w1 where open1: "os_OpenFile path w = (r1, w1)"
    by (cases "os_OpenFile path w")
  from ok open1 obtain f where r1: "r1 = Inr f"
    by (cases r1) (simp_all add: initPanicFile_def)
  define w2 where "w2 = w1\<lparr>panicFile := Some f\<rparr>"
  obtain r3 w3 where stat: "File_Stat (Some f) w2 = (r3, w3)"
    by (cases "File_Stat (Some f) w2")
  from ok open1 r1 stat obtain sz where r3: "r3 = Inr sz"
    by (cases r3) (simp_all add: initPanicFile_def w2_def)
  have w1: "stderr w1 = stderr w" "calls w1 = calls w @ [SysOpenFile path]"
    using os_OpenFile_keeps [of path w] open1 by simp_all
  note opened = os_OpenFile_ok [OF open1 [unfolded r1]]
  from opened(3) obtain c where c: "files w1 path = Some c" ..
  have w3: "w3 = called (SysStat (Fd f)) w2"
    using File_Stat_snd [of f w2] stat by simp
  have w3s: "stderr w3 = stderr w" "panicFile w3 = Some f"
    "calls w3 = calls w @ [SysOpenFile path, SysStat (Fd f)]"
    "handles w3 (Fd f) = Some path" "files w3 path = Some c"
    using w1 opened(2) c by (simp_all add: w3 w2_def called_def)
  have sz: "sz = length c"
    using File_Stat_ok [OF stat [unfolded r3], of path c] opened(2) c by (simp add: w2_def)
  show ?thesis
  proof (cases "sz > 0")
    case False
    with ok open1 r1 stat r3 have "redirect_stderr w3 = (None, w')"
      by (simp add: initPanicFile_def w2_def)
    moreover have "panicFile w3 = Some \<lparr>Fd = Fd f, Name = path\<rparr>"
      using w3s(2) opened(1) by simp
    moreover have "files w3 path = Some []"
      using False sz w3s(5) by simp
    ultimately show ?thesis using w3s by blast
  next
    case True
    obtain r4 w4 where rep: "replace_panicFile path w3 = (r4, w4)"
      by (cases "replace_panicFile path w3")
    from ok open1 r1 stat r3 True rep have r4: "r4 = None"
      by (cases r4) (simp_all add: initPanicFile_def w2_def)
    from ok open1 r1 stat r3 True rep r4 have red: "redirect_stderr w4 = (None, w')"
      by (simp add: initPanicFile_def w2_def)
    have "stderr w4 = stderr w"
      using replace_panicFile_keeps(1) [of path w3] rep w3s by simp
    moreover obtain h where "panicFile w4 = Some \<lparr>Fd = h, Name = path\<rparr>"
      "handles w4 h = Some path"
      using replace_panicFile_ok(1) [OF rep [unfolded r4]] by blast
    moreover have "files w4 path = Some []"
      using replace_panicFile_ok(2) [OF rep [unfolded r4]] .
    moreover have "calls w4 = calls w @ ([SysOpenFile path, SysStat (Fd f), SysClose (Fd f),
        SysRename path (path @ ''.old''), SysCreate path])"
      using replace_panicFile_calls [of path w3] rep w3s by simp
    ultimately show ?thesis using red by blast
  qed
qed

lemma initPanicFile_ok:
  assumes ok: "initPanicFile path w = (None, w')"
  shows "oldStderr w' = stderr w"
    and "panicFile w' = Some \<lparr>Fd = stderr w', Name = path\<rparr>"
    and "handles w' (stderr w') = Some path"
    and "files w' path = Some []"
    and "drop (length (calls w') - 2) (calls w')
           = [SysGetStdHandle, SysSetStdHandle (stderr w')]"
proof -
  from initPanicFile_before_redirect [OF ok] obtain w4 h pre where
    red: "redirect_stderr w4 = (None, w')"
    and w4: "stderr w4 = stderr w" "panicFile w4 = Some \<lparr>Fd = h, Name = path\<rparr>"
      "handles w4 h = Some path" "files w4 path = Some []" "calls w4 = calls w @ pre"
    by blast
  note r = redirect_stderr_ok [OF red]
  show "oldStderr w' = stderr w"
    using r w4 by simp
  show "panicFile w' = Some \<lparr>Fd = stderr w', Name = path\<rparr>"
    using r w4 by simp
  show "handles w' (stderr w') = Some path"
    using r w4 by simp
  show "files w' path = Some []"
    using r w4 by simp
  show "drop (length (calls w') - 2) (calls w')
           = [SysGetStdHandle, SysSetStdHandle (stderr w')]"
    using r w4 by simp
qed

lemma initPanicFile_nonempty:
  assumes "files w path = Some c" "c \<noteq> []"
    and "faults w (SysOpenFile path) = None"
    and "faults w (SysStat (pick w (calls w) (handles w))) = None"
  shows "\<exists>w3. initPanicFile path w =
           (case replace_panicFile path w3 of
              (Some err, w4) \<Rightarrow> (Some err, w4)
            | (None, w4) \<Rightarrow> redirect_stderr w4)
         \<and> calls w3 = calls w @ [SysOpenFile path, SysStat (pick w (calls w) (handles w))]
         \<and> panicFile w3 = Some \<lparr>Fd = pick w (calls w) (handles w), Name = path\<rparr>
         \<and> files w3 = files w \<and> faults w3 = faults w"
proof -
  define f0 where "f0 = \<lparr>Fd = pick w (calls w) (handles w), Name = path\<rparr>"
  define w1 where "w1 = snd (os_OpenFile path w)"
  define w2 where "w2 = w1\<lparr>panicFile := Some f0\<rparr>"
  define w3 where "w3 = called (SysStat (pick w (calls w) (handles w))) w2"
  have opened: "os_OpenFile path w = (Inr f0, w1)"
    using assms by (simp add: w1_def f0_def os_OpenFile_def Let_def)
  have w1: "files w1 = files w" "faults w1 = faults w"
    "handles w1 (pick w (calls w) (handles w)) = Some path"
    "calls w1 = calls w @ [SysOpenFile path]"
    using assms by (simp_all add: w1_def os_OpenFile_def called_def Let_def)
  have stat: "File_Stat (Some f0) w2 = (Inr (length c), w3)"
    using assms w1 by (simp add: w2_def w3_def f0_def File_Stat_def Let_def)
  have "initPanicFile path w =
          (case replace_panicFile path w3 of
             (Some err, w4) \<Rightarrow> (Some err, w4)
           | (None, w4) \<Rightarrow> redirect_stderr w4)"
    using opened stat assms(2) by (simp add: initPanicFile_def w2_def [symmetric])
  moreover have
    "calls w3 = calls w @ [SysOpenFile path, SysStat (pick w (calls w) (handles w))]"
    "panicFile w3 = Some \<lparr>Fd = pick w (calls w) (handles w), Name = path\<rparr>"
    "files w3 = files w" "faults w3 = faults w"
    using w1 by (simp_all add: w3_def w2_def called_def f0_def)
  ultimately show ?thesis by blast
qed

lemma initPanicFile_rotates:
  assumes ex: "files w path = Some c" "c \<noteq> []"
    and nf: "faults w (SysOpenFile path) = None"
      "faults w (SysStat (pick w (calls w) (handles w))) = None"
  shows "take (length (calls w) + 5) (calls (snd (initPanicFile path w)))
           = calls w @ [SysOpenFile path, SysStat (pick w (calls w) (handles w)),
               SysClose (pick w (calls w) (handles w)),
               SysRename path (path @ ''.old''), SysCreate path]"
    and "faults w (SysClose (pick w (calls w) (handles w))) = None
           \<Longrightarrow> handles (snd (initPanicFile path w)) (pick w (calls w) (handles w)) = None
               \<or> panicFile (snd (initPanicFile path w))
                    = Some \<lparr>Fd = pick w (calls w) (handles w), Name = path\<rparr>"
    and "faults w (SysRename path (path @ ''.old'')) = None
           \<Longrightarrow> files (snd (initPanicFile path w)) (path @ ''.old'') = Some c"
    and "faults w (SysCreate path) = None
           \<Longrightarrow> files (snd (initPanicFile path w)) path = Some []"
proof -
  let ?h = "pick w (calls w) (handles w)"
  from initPanicFile_nonempty [OF ex nf] obtain w3 where
    run: "initPanicFile path w =
           (case replace_panicFile path w3 of
              (Some err, w4) \<Rightarrow> (Some err, w4)
            | (None, w4) \<Rightarrow> redirect_stderr w4)"
    and w3: "calls w3 = calls w @ [SysOpenFile path, SysStat ?h]"
      "panicFile w3 = Some \<lparr>Fd = ?h, Name = path\<rparr>"
      "files w3 = files w" "faults w3 = faults w"
    by blast
  obtain r4 w4 where rep: "replace_panicFile path w3 = (r4, w4)"
    by (cases "replace_panicFile path w3")
  have w4: "w4 = snd (replace_panicFile path w3)"
    using rep by simp
  have calls4: "calls w4 = calls w @ [SysOpenFile path, SysStat ?h,
      SysClose ?h, SysRename path (path @ ''.old''), SysCreate path]"
    by (simp add: w4 replace_panicFile_calls w3)
  have final: "snd (initPanicFile path w)
      = (case r4 of Some err \<Rightarrow> w4 | None \<Rightarrow> snd (redirect_stderr w4))"
    by (simp add: run rep split: option.splits)
  have "\<exists>rest. calls (snd (initPanicFile path w)) = calls w4 @ rest"
  proof (cases r4)
    case None
    then show ?thesis using redirect_stderr_keeps(4) [of w4] by (simp add: final)
  next
    case (Some err)
    then show ?thesis by (simp add: final)
  qed
  then obtain rest where rest: "calls (snd (initPanicFile path w)) = calls w4 @ rest" ..
  show "take (length (calls w) + 5) (calls (snd (initPanicFile path w)))
           = calls w @ [SysOpenFile path, SysStat ?h, SysClose ?h,
               SysRename path (path @ ''.old''), SysCreate path]"
    by (simp add: rest calls4)
  have keep: "files (snd (initPanicFile path w)) = files w4"
    "handles (snd (initPanicFile path w)) = handles w4"
    "panicFile (snd (initPanicFile path w)) = panicFile w4"
    by (simp_all add: final redirect_stderr_keeps split: option.splits)
  show "handles (snd (initPanicFile path w)) ?h = None
          \<or> panicFile (snd (initPanicFile path w)) = Some \<lparr>Fd = ?h, Name = path\<rparr>"
    if "faults w (SysClose ?h) = None"
    using that replace_panicFile_files(3) [of w3 "\<lparr>Fd = ?h, Name = path\<rparr>" path] w3
    by (simp add: keep w4)
  show "files (snd (initPanicFile path w)) (path @ ''.old'') = Some c"
    if "faults w (SysRename path (path @ ''.old'')) = None"
    using that replace_panicFile_files(2) [of w3 path c] w3 ex
    by (simp add: keep w4)
  show "files (snd (initPanicFile path w)) path = Some []"
    if "faults w (SysCreate path) = None"
    using that replace_panicFile_files(1) [of w3 path] w3
    by (simp add: keep w4)
qed

text \<open>
  C7. Let the file at \<open>path\<close> exist with contents \<open>c\<close> that are not empty, and let the
  open and the size query succeed. Then \<open>initPanicFile\<close> opens the file, asks for its
  size, closes that handle, renames \<open>path\<close> to \<open>path.old\<close> and creates \<open>path\<close>, in this
  order; where these calls succeed, the first handle is closed (or its number is in use
  again, for the new file), \<open>path.old\<close> holds \<open>c\<close> and \<open>path\<close> is empty. Every successful
  installation leaves in \<open>oldStderr\<close> the standard error handle that the process had
  before the call, and leaves the standard error handle on the panic file: \<open>panicFile\<close>
  is a file named \<open>path\<close> whose handle is the standard error handle, that handle is open
  on \<open>path\<close>, and the file at \<open>path\<close> is empty. Its last two calls are the one that reads
  the standard error handle and then the one that sets it.
\<close>

theorem initPanicFile_installs:
  "(\<forall>c. files w path = Some c \<and> c \<noteq> [] \<and> faults w (SysOpenFile path) = None
         \<and> faults w (SysStat (pick w (calls w) (handles w))) = None \<longrightarrow>
       take (length (calls w) + 5) (calls (snd (initPanicFile path w)))
         = calls w @ [SysOpenFile path, SysStat (pick w (calls w) (handles w)),
             SysClose (pick w (calls w) (handles w)),
             SysRename path (path @ ''.old''), SysCreate path]
       \<and> (faults w (SysClose (pick w (calls w) (handles w))) = None
            \<longrightarrow> handles (snd (initPanicFile path w)) (pick w (calls w) (handles w)) = None
                \<or> panicFile (snd (initPanicFile path w))
                     = Some \<lparr>Fd = pick w (calls w) (handles w), Name = path\<rparr>)
       \<and> (faults w (SysRename path (path @ ''.old'')) = None
            \<longrightarrow> files (snd (initPanicFile path w)) (path @ ''.old'') = Some c)
       \<and> (faults w (SysCreate path) = None
            \<longrightarrow> files (snd (initPanicFile path w)) path = Some []))
   \<and> (fst (initPanicFile path w) = None \<longrightarrow>
         oldStderr (snd (initPanicFile path w)) = stderr w
       \<and> panicFile (snd (initPanicFile path w))
           = Some \<lparr>Fd = stderr (snd (initPanicFile path w)), Name = path\<rparr>
       \<and> handles (snd (initPanicFile path w)) (stderr (snd (initPanicFile path w)))
           = Some path
       \<and> files (snd (initPanicFile path w)) path = Some []
       \<and> drop (length (calls (snd (initPanicFile path w))) - 2)
              (calls (snd (initPanicFile path w)))
           = [SysGetStdHandle, SysSetStdHandle (stderr (snd (initPanicFile path w)))])"
proof (intro conjI allI impI)
  fix c
  assume a: "files w path = Some c \<and> c \<noteq> [] \<and> faults w (SysOpenFile path) = None
         \<and> faults w (SysStat (pick w (calls w) (handles w))) = None"
  then have ex: "files w path = Some c" "c \<noteq> []"
    and nf: "faults w (SysOpenFile path) = None"
      "faults w (SysStat (pick w (calls w) (handles w))) = None"
    by simp_all
  show "take (length (calls w) + 5) (calls (snd (initPanicFile path w)))
         = calls w @ [SysOpenFile path, SysStat (pick w (calls w) (handles w)),
             SysClose (pick w (calls w) (handles w)),
             SysRename path (path @ ''.old''), SysCreate path]"
    by (rule initPanicFile_rotates(1) [OF ex nf])
  show "handles (snd (initPanicFile path w)) (pick w (calls w) (handles w)) = None
          \<or> panicFile (snd (initPanicFile path w))
               = Some \<lparr>Fd = pick w (calls w) (handles w), Name = path\<rparr>"
    if "faults w (SysClose (pick w (calls w) (handles w))) = None"
    by (rule initPanicFile_rotates(2) [OF ex nf that])
  show "files (snd (initPanicFile path w)) (path @ ''.old'') = Some c"
    if "faults w (SysRename path (path @ ''.old'')) = None"
    by (rule initPanicFile_rotates(3) [OF ex nf that])
  show "files (snd (initPanicFile path w)) path = Some []"
    if "faults w (SysCreate path) = None"
    by (rule initPanicFile_rotates(4) [OF ex nf that])
next
  assume "fst (initPanicFile path w) = None"
  then have ok: "initPanicFile path w = (None, snd (initPanicFile path w))"
    by (simp add: prod_eq_iff)
  show "oldStderr (snd (initPanicFile path w)) = stderr w"
    by (rule initPanicFile_ok(1) [OF ok])
  show "panicFile (snd (initPanicFile path w))
           = Some \<lparr>Fd = stderr (snd (initPanicFile path w)), Name = path\<rparr>"
    by (rule initPanicFile_ok(2) [OF ok])
  show "handles (snd (initPanicFile path w)) (stderr (snd (initPanicFile path w)))
           = Some path"
    by (rule initPanicFile_ok(3) [OF ok])
  show "files (snd (initPanicFile path w)) path = Some []"
    by (rule initPanicFile_ok(4) [OF ok])
  show "drop (length (calls (snd (initPanicFile path w))) - 2)
              (calls (snd (initPanicFile path w)))
           = [SysGetStdHandle, SysSetStdHandle (stderr (snd (initPanicFile path w)))]"
    by (rule initPanicFile_ok(5) [OF ok])
qed

theorem initPanicFile_installs_witness:
  "fst (initPanicFile ''root/panic.log'' stale_world) = None
   \<and> files (snd (initPanicFile ''root/panic.log'' stale_world)) ''root/panic.log.old''
       = Some ''boom''
   \<and> files (snd (initPanicFile ''root/panic.log'' stale_world)) ''root/panic.log'' = Some []
   \<and> oldStderr (snd (initPanicFile ''root/panic.log'' stale_world)) = 2
   \<and> stderr (snd (initPanicFile ''root/panic.log'' stale_world)) = 3
   \<and> handles (snd (initPanicFile ''root/panic.log'' stale_world)) 3 = Some ''root/panic.log''
   \<and> fst (initPanicFile ''root/panic.log'' counting_world) = None
   \<and> files (snd (initPanicFile ''root/panic.log'' counting_world)) ''root/panic.log.old''
       = Some ''boom''
   \<and> oldStderr (snd (initPanicFile ''root/panic.log'' counting_world)) = 2
   \<and> stderr (snd (initPanicFile ''root/panic.log'' counting_world)) = 7
   \<and> handles (snd (initPanicFile ''root/panic.log'' counting_world)) 7 = Some ''root/panic.log''
   \<and> handles (snd (initPanicFile ''root/panic.log'' counting_world)) 3 = None"
proof -
  have ok: "fst (initPanicFile ''root/panic.log'' stale_world) = None"
    "fst (initPanicFile ''root/panic.log'' counting_world) = None"
    by (simp_all add: panic_defs os_defs counting_world_def stale_world_def quiet_world_def
        Let_def)
  have new: "stderr (snd (initPanicFile ''root/panic.log'' stale_world)) = 3"
    "stderr (snd (initPanicFile ''root/panic.log'' counting_world)) = 7"
    by (simp_all add: panic_defs os_defs counting_world_def stale_world_def quiet_world_def
        Let_def)
  have hyp: "files stale_world ''root/panic.log'' = Some ''boom''" "''boom'' \<noteq> []"
    "faults stale_world c = None" "pick stale_world (calls stale_world) (handles stale_world) = 3"
    "stderr stale_world = 2"
    "files counting_world ''root/panic.log'' = Some ''boom''"
    "faults counting_world c = None"
    "pick counting_world (calls counting_world) (handles counting_world) = 3"
    "stderr counting_world = 2" for c
    by (simp_all add: counting_world_def stale_world_def quiet_world_def)
  from initPanicFile_installs [of stale_world "''root/panic.log''"]
    initPanicFile_installs [of counting_world "''root/panic.log''"] ok new hyp
  show ?thesis by auto
qed

text \<open>
  C8. Let the panic file be open, with contents \<open>c\<close>, and let the size query succeed.
  If \<open>c\<close> is empty, \<open>removePanicFile\<close> sets the standard error handle back to
  \<open>oldStderr\<close>, closes the file and removes it by name, in this order (and where each call
  succeeds, the handle is restored, the file handle is closed, and the file is gone). If
  \<open>c\<close> is not empty, nothing changes but the record of the size query: the files, the
  open handles and the standard error handle are as before.
\<close>

theorem removePanicFile_releases:
  assumes "panicFile w = Some pf" and "handles w (Fd pf) = Some p" and "files w p = Some c"
    and "faults w (SysStat (Fd pf)) = None"
  shows "(c = [] \<longrightarrow>
            calls (removePanicFile w)
              = calls w @ [SysStat (Fd pf), SysSetStdHandle (oldStderr w), SysClose (Fd pf),
                  SysRemove (Name pf)]
          \<and> (faults w (SysSetStdHandle (oldStderr w)) = None
               \<longrightarrow> stderr (removePanicFile w) = oldStderr w)
          \<and> (faults w (SysClose (Fd pf)) = None
               \<longrightarrow> handles (removePanicFile w) (Fd pf) = None)
          \<and> (faults w (SysRemove (Name pf)) = None
               \<longrightarrow> files (removePanicFile w) (Name pf) = None))
       \<and> (c \<noteq> [] \<longrightarrow> removePanicFile w = called (SysStat (Fd pf)) w)"
  using assms
  by (simp add: removePanicFile_def os_defs Let_def split: option.splits)

theorem removePanicFile_releases_witness:
  "files (removePanicFile (armed_world [])) ''root/panic.log'' = None
   \<and> handles (removePanicFile (armed_world [])) 3 = None
   \<and> stderr (removePanicFile (armed_world [])) = 2
   \<and> removePanicFile (armed_world ''boom'') = called (SysStat 3) (armed_world ''boom'')"
proof -
  have e: "panicFile (armed_world []) = Some \<lparr>Fd = 3, Name = ''root/panic.log''\<rparr>"
    "handles (armed_world []) (Fd \<lparr>Fd = 3, Name = ''root/panic.log''\<rparr>) = Some ''root/panic.log''"
    "files (armed_world []) ''root/panic.log'' = Some []"
    "faults (armed_world []) (SysStat (Fd \<lparr>Fd = 3, Name = ''root/panic.log''\<rparr>)) = None"
    by (simp_all add: armed_world_def)
  have b: "panicFile (armed_world ''boom'') = Some \<lparr>Fd = 3, Name = ''root/panic.log''\<rparr>"
    "handles (armed_world ''boom'') (Fd \<lparr>Fd = 3, Name = ''root/panic.log''\<rparr>)
       = Some ''root/panic.log''"
    "files (armed_world ''boom'') ''root/panic.log'' = Some ''boom''"
    "faults (armed_world ''boom'') (SysStat (Fd \<lparr>Fd = 3, Name = ''root/panic.log''\<rparr>)) = None"
    by (simp_all add: armed_world_def)
  from removePanicFile_releases [OF e] removePanicFile_releases [OF b]
  show ?thesis by (simp add: armed_world_def)
qed

section \<open>Properties of the service handler\<close>

lemmas svc_defs = Stopped_def StartPending_def StopPending_def Running_def Stop_def
  Interrogate_def Shutdown_def SERVICE_CONTROL_PARAMCHANGE_def AcceptStop_def
  AcceptShutdown_def SERVICE_ACCEPT_PARAMCHANGE_def

text \<open>
  C5, as the code has it. \<open>initService\<close> returns \<open>true\<close> as its first result with the
  unregister flag or the register flag (also with both, which is an error), and \<open>false\<close>
  with neither of them: both when it runs as a service and when no flag is given.
\<close>

theorem initService_exitRequested:
  "(flUnregisterService fl \<or> flRegisterService fl \<longrightarrow> fst (initService fl hst))
   \<and> (\<not> flUnregisterService fl \<and> \<not> flRegisterService fl \<longrightarrow> \<not> fst (initService fl hst))"
  by (simp add: initService_def split: sum.splits option.splits)

theorem initService_exitRequested_witness:
  "fst (initService (no_flags\<lparr>flRegisterService := True\<rparr>) quiet_host)
   \<and> fst (initService (no_flags\<lparr>flUnregisterService := True\<rparr>) quiet_host)
   \<and> \<not> fst (initService (no_flags\<lparr>flRunService := True\<rparr>) quiet_host)
   \<and> \<not> fst (initService no_flags quiet_host)"
  using initService_exitRequested [of "no_flags\<lparr>flRegisterService := True\<rparr>" quiet_host]
    initService_exitRequested [of "no_flags\<lparr>flUnregisterService := True\<rparr>" quiet_host]
    initService_exitRequested [of "no_flags\<lparr>flRunService := True\<rparr>" quiet_host]
    initService_exitRequested [of no_flags quiet_host]
  by (simp add: no_flags_def)

text \<open>
  C5 as stated fails on the path with no flag: the first result is \<open>false\<close>, as on the
  path that runs as a service.
\<close>

theorem initService_no_flags:
  "initService no_flags quiet_host = (False, None)"
  by (simp add: initService_def no_flags_def)

text \<open>
  C3. \<open>started\<close> installs the panic file at \<open>Join Root ''panic.log''\<close>: its error is
  the error of that installation and its state is the state the installation leaves. If
  the installation succeeds, \<open>started\<close> returns nil and sends \<open>false\<close> on \<open>tosvc\<close>, and
  nothing else; \<open>panicFile\<close> is then a file of that name whose handle is the standard
  error handle, this handle is open on that path, the file there is empty, and
  \<open>oldStderr\<close> is the standard error handle from before. If the installation fails,
  \<open>started\<close> returns its error and does nothing on a channel.
\<close>

theorem started_sends:
  "fst (started Join Root w) = fst (initPanicFile (Join Root ''panic.log'') w)
   \<and> snd (snd (started Join Root w)) = snd (initPanicFile (Join Root ''panic.log'') w)
   \<and> (fst (started Join Root w) = None \<longrightarrow>
         fst (snd (started Join Root w)) = [SendTosvc False]
       \<and> panicFile (snd (snd (started Join Root w)))
           = Some \<lparr>Fd = stderr (snd (snd (started Join Root w))),
                   Name = Join Root ''panic.log''\<rparr>
       \<and> handles (snd (snd (started Join Root w))) (stderr (snd (snd (started Join Root w))))
           = Some (Join Root ''panic.log'')
       \<and> files (snd (snd (started Join Root w))) (Join Root ''panic.log'') = Some []
       \<and> oldStderr (snd (snd (started Join Root w))) = stderr w)
   \<and> (fst (started Join Root w) \<noteq> None \<longrightarrow> fst (snd (started Join Root w)) = [])"
proof -
  let ?path = "Join Root ''panic.log''"
  obtain r w' where run: "initPanicFile ?path w = (r, w')"
    by (cases "initPanicFile ?path w")
  show ?thesis
  proof (cases r)
    case None
    note ok = run [unfolded None]
    have "started Join Root w = (None, [SendTosvc False], w')"
      using ok by (simp add: started_def)
    then show ?thesis
      using ok initPanicFile_ok [OF ok] by simp
  next
    case (Some err)
    then have "started Join Root w = (Some err, [], w')"
      using run by (simp add: started_def)
    then show ?thesis
      using run Some by simp
  qed
qed

theorem started_sends_witness:
  "fst (started slash_Join ''root'' quiet_world) = None
   \<and> fst (snd (started slash_Join ''root'' quiet_world)) = [SendTosvc False]
   \<and> panicFile (snd (snd (started slash_Join ''root'' quiet_world)))
       = Some \<lparr>Fd = 3, Name = ''root/panic.log''\<rparr>
   \<and> stderr (snd (snd (started slash_Join ''root'' quiet_world))) = 3
   \<and> handles (snd (snd (started slash_Join ''root'' quiet_world))) 3 = Some ''root/panic.log''
   \<and> files (snd (snd (started slash_Join ''root'' quiet_world))) ''root/panic.log'' = Some []
   \<and> oldStderr (snd (snd (started slash_Join ''root'' quiet_world))) = 2
   \<and> fst (started slash_Join ''root'' broken_world) = Some ''access denied''
   \<and> fst (snd (started slash_Join ''root'' broken_world)) = []"
proof -
  have q: "fst (initPanicFile (slash_Join ''root'' ''panic.log'') quiet_world) = None"
    "stderr (snd (initPanicFile (slash_Join ''root'' ''panic.log'') quiet_world)) = 3"
    by (simp_all add: panic_defs os_defs quiet_world_def slash_Join_def Let_def)
  have b: "fst (initPanicFile (slash_Join ''root'' ''panic.log'') broken_world)
             = Some ''access denied''"
    by (simp add: panic_defs os_defs broken_world_def quiet_world_def slash_Join_def Let_def)
  have e: "slash_Join ''root'' ''panic.log'' = ''root/panic.log''" "stderr quiet_world = 2"
    by (simp_all add: slash_Join_def quiet_world_def)
  from started_sends [of slash_Join "''root''" quiet_world]
    started_sends [of slash_Join "''root''" broken_world] q b e
  show ?thesis by auto
qed

lemma statuses_append: "statuses (as @ bs) = statuses as @ statuses bs"
  by (induction as rule: statuses.induct) simp_all

lemma statuses_serve:
  "statuses (serve c) =
     (if Cmd c = Interrogate then [CurrentStatus c]
      else if Cmd c = Stop \<or> Cmd c = Shutdown then [\<lparr>State = StopPending, Accepts = 0\<rparr>]
      else [])"
  by (simp add: serve_def svc_defs)

lemma first_signal_queued:
  "first_signal (map Control queued @ FromDaemon b # rest) = Some (b, map Control queued @ rest)"
  by (induction queued) simp_all

lemma Loop_requests:
  "Loop (map Control cs @ FromDaemon b # later) = (concat (map serve cs), Some b)"
  by (induction cs) simp_all

lemma signals_stopped: "signals (stopped err) = [FromDaemon (err \<noteq> None)]"
  by (simp add: stopped_def)

lemma started_ok:
  "started Join Root w = (None, sent, w1) \<Longrightarrow> sent = [SendTosvc False]"
  by (auto simp: started_def split: prod.splits option.splits)

lemma started_failed:
  "fst (started Join Root w) \<noteq> None \<Longrightarrow> fst (snd (started Join Root w)) = []"
  by (auto simp: started_def split: prod.splits option.splits)

lemma started_never_true:
  "SendTosvc True \<notin> set (fst (snd (started Join Root w)))"
  by (auto simp: started_def split: prod.splits option.splits)

text \<open>
  C1, as the code has it. Let \<open>started\<close> return nil, and let \<open>stopped(nil)\<close> follow
  after the change requests \<open>cs\<close> (\<open>queued\<close> are the requests that came before \<open>started\<close>
  sent). Then \<open>Execute\<close> returns \<open>(false, 0)\<close> after it has released the panic file, and
  the statuses it has reported are exactly: StartPending, accepting nothing; Running,
  accepting Stop, Shutdown and ParamChange; and then for each request in turn
  StopPending (accepting nothing) for Stop and for Shutdown, the request's own current
  status for Interrogate, and nothing for any other command. So StopPending is among
  them only if a Stop or Shutdown request was served or an Interrogate request carried
  it, and Stopped only if an Interrogate request carried it; with no request at all the
  statuses are StartPending and Running.
\<close>

theorem Execute_started_stopped:
  fixes queued cs :: "ChangeRequest list"
  defines "evs sent later \<equiv>
    map Control queued @ signals sent @ map Control cs @ signals (stopped None) @ later"
  assumes "started Join Root w = (None, sent, w1)"
  shows "fst (snd (Execute (evs sent later) w1)) = Returned False 0
       \<and> statuses (fst (Execute (evs sent later) w1))
           = \<lparr>State = StartPending, Accepts = 0\<rparr>
             # \<lparr>State = Running,
                 Accepts = AcceptStop OR AcceptShutdown OR SERVICE_ACCEPT_PARAMCHANGE\<rparr>
             # concat (map (\<lambda>c. if Cmd c = Interrogate then [CurrentStatus c]
                               else if Cmd c = Stop \<or> Cmd c = Shutdown
                                 then [\<lparr>State = StopPending, Accepts = 0\<rparr>]
                               else []) (queued @ cs))
       \<and> snd (snd (Execute (evs sent later) w1)) = removePanicFile w1
       \<and> (StopPending \<in> State ` set (statuses (fst (Execute (evs sent later) w1))) \<longrightarrow>
            (\<exists>c \<in> set (queued @ cs). Cmd c = Stop \<or> Cmd c = Shutdown
               \<or> Cmd c = Interrogate \<and> State (CurrentStatus c) = StopPending))
       \<and> (Stopped \<in> State ` set (statuses (fst (Execute (evs sent later) w1))) \<longrightarrow>
            (\<exists>c \<in> set (queued @ cs). Cmd c = Interrogate
               \<and> State (CurrentStatus c) = Stopped))"
proof -
  let ?reply = "\<lambda>c. if Cmd c = Interrogate then [CurrentStatus c]
                    else if Cmd c = Stop \<or> Cmd c = Shutdown
                      then [\<lparr>State = StopPending, Accepts = 0\<rparr>]
                    else []"
  have sent: "signals sent = [FromDaemon False]"
    using started_ok [OF assms(2)] by simp
  have first: "first_signal (evs sent later)
      = Some (False, map Control (queued @ cs) @ FromDaemon False # later)"
    by (simp add: evs_def sent signals_stopped first_signal_queued)
  have served: "statuses (concat (map serve rs)) = concat (map ?reply rs)" for rs
    by (induction rs) (simp_all add: statuses_append statuses_serve)
  have run: "fst (snd (Execute (evs sent later) w1)) = Returned False 0"
    "snd (snd (Execute (evs sent later) w1)) = removePanicFile w1"
    by (simp_all add: Execute_def first Loop_requests del: map_append)
  have reported: "statuses (fst (Execute (evs sent later) w1))
      = \<lparr>State = StartPending, Accepts = 0\<rparr>
        # \<lparr>State = Running,
            Accepts = AcceptStop OR AcceptShutdown OR SERVICE_ACCEPT_PARAMCHANGE\<rparr>
        # concat (map ?reply (queued @ cs))"
    by (simp add: Execute_def first Loop_requests statuses_append served del: map_append)
  have pending: "\<exists>c \<in> set (queued @ cs). Cmd c = Stop \<or> Cmd c = Shutdown
               \<or> Cmd c = Interrogate \<and> State (CurrentStatus c) = StopPending"
    if "StopPending \<in> State ` set (statuses (fst (Execute (evs sent later) w1)))"
    using that unfolding reported
    by (auto simp: svc_defs split: if_splits)
  have stopped: "\<exists>c \<in> set (queued @ cs). Cmd c = Interrogate
               \<and> State (CurrentStatus c) = Stopped"
    if "Stopped \<in> State ` set (statuses (fst (Execute (evs sent later) w1)))"
    using that unfolding reported
    by (auto simp: svc_defs split: if_splits)
  from run reported pending stopped show ?thesis by blast
qed

theorem Execute_started_stopped_witness:
  "fst (snd (Execute [FromDaemon False, Control stop_request, FromDaemon False]
       (snd (snd (started slash_Join ''root'' quiet_world)))))
     = Returned False 0
   \<and> statuses (fst (Execute [FromDaemon False, Control stop_request, FromDaemon False]
       (snd (snd (started slash_Join ''root'' quiet_world)))))
     = [\<lparr>State = StartPending, Accepts = 0\<rparr>, \<lparr>State = Running, Accepts = 13\<rparr>,
        \<lparr>State = StopPending, Accepts = 0\<rparr>]"
proof -
  have ok: "started slash_Join ''root'' quiet_world
      = (None, [SendTosvc False], snd (snd (started slash_Join ''root'' quiet_world)))"
    by (simp add: prod_eq_iff started_def panic_defs os_defs quiet_world_def slash_Join_def
        Let_def)
  from Execute_started_stopped [OF ok, of "[]" "[stop_request]" "[]"]
  show ?thesis by (simp add: stopped_def stop_request_def svc_defs)
qed

text \<open>
  C1 as stated fails: \<open>started\<close> returns nil, \<open>stopped(nil)\<close> follows with no request in
  between, and \<open>Execute\<close> returns \<open>(false, 0)\<close> after it has reported StartPending and
  Running only.
\<close>

theorem Execute_no_stop_request:
  "fst (started slash_Join ''root'' quiet_world) = None
   \<and> fst (snd (Execute
        (signals (fst (snd (started slash_Join ''root'' quiet_world)))
           @ signals (stopped None))
        (snd (snd (started slash_Join ''root'' quiet_world)))))
     = Returned False 0
   \<and> map State (statuses (fst (Execute
        (signals (fst (snd (started slash_Join ''root'' quiet_world)))
           @ signals (stopped None))
        (snd (snd (started slash_Join ''root'' quiet_world))))))
     = [StartPending, Running]"
  by (simp add: started_def panic_defs os_defs quiet_world_def slash_Join_def Let_def
      stopped_def Execute_def svc_defs)

text \<open>
  C2, as the code has it. When the first boolean that \<open>Execute\<close> receives on \<open>tosvc\<close> is
  \<open>true\<close>, it has reported StartPending only, returns \<open>(true, 1)\<close> and leaves the panic
  file alone. That boolean never comes from \<open>started\<close>, which sends \<open>false\<close> or nothing:
  a \<open>started\<close> that fails sends nothing, and with nothing sent \<open>Execute\<close> stays blocked
  after StartPending. It comes from \<open>stopped(err)\<close> with an error.
\<close>

theorem Execute_start_failed:
  "(first_signal evs = Some (True, rest) \<longrightarrow>
      Execute evs w =
        ([SendStatus \<lparr>State = StartPending, Accepts = 0\<rparr>, SendFromsvc None,
          Debugf ''Aborting service start due to failure during initializtion''],
         Returned True 1, w)
      \<and> map State (statuses (fst (Execute evs w))) = [StartPending])
   \<and> SendTosvc True \<notin> set (fst (snd (started Join Root w0)))
   \<and> (fst (started Join Root w0) \<noteq> None \<longrightarrow>
        signals (fst (snd (started Join Root w0))) = []
        \<and> fst (snd (Execute (signals (fst (snd (started Join Root w0)))) w)) = Blocked)
   \<and> (err \<noteq> None \<longrightarrow> first_signal (signals (stopped err) @ later) = Some (True, later))"
  using started_never_true [of Join Root w0] started_failed [of Join Root w0]
  by (simp add: Execute_def signals_stopped)

theorem Execute_start_failed_witness:
  "Execute (signals (stopped (Some ''no daemon''))) quiet_world =
     ([SendStatus \<lparr>State = StartPending, Accepts = 0\<rparr>, SendFromsvc None,
       Debugf ''Aborting service start due to failure during initializtion''],
      Returned True 1, quiet_world)
   \<and> fst (snd (Execute (signals (fst (snd (started slash_Join ''root'' broken_world))))
        quiet_world)) = Blocked"
proof -
  have f: "fst (started slash_Join ''root'' broken_world) \<noteq> None"
    by (simp add: started_def panic_defs os_defs broken_world_def quiet_world_def
        slash_Join_def Let_def)
  have s: "first_signal (signals (stopped (Some ''no daemon''))) = Some (True, [])"
    by (simp add: stopped_def)
  from Execute_start_failed [of "signals (stopped (Some ''no daemon''))" "[]" quiet_world
      slash_Join "''root''" broken_world "Some ''no daemon''" "[]"] f s
  show ?thesis by blast
qed

text \<open>
  C2 as stated fails: \<open>started\<close> fails, \<open>stopped\<close> is not called, and \<open>Execute\<close>
  does not return; it has reported StartPending and blocks.
\<close>

theorem Execute_blocked_when_started_fails:
  "fst (started slash_Join ''root'' broken_world) = Some ''access denied''
   \<and> Execute (signals (fst (snd (started slash_Join ''root'' broken_world))))
       (snd (snd (started slash_Join ''root'' broken_world)))
     = ([SendStatus \<lparr>State = StartPending, Accepts = 0\<rparr>, SendFromsvc None], Blocked,
        snd (snd (started slash_Join ''root'' broken_world)))"
  by (simp add: started_def panic_defs os_defs broken_world_def quiet_world_def
      slash_Join_def Let_def Execute_def)

end
